theory Spec2Isabelle
  imports Complex_Main
begin

section \<open>Flight simulator: the per-frame update of src/main.js\<close>

text \<open>
  The embedding follows \<^verbatim>\<open>src/main.js\<close>. JavaScript numbers are modelled by the reals
  (ideal arithmetic: no rounding, no NaN, no infinities); \<^verbatim>\<open>Math.sqrt\<close>, \<^verbatim>\<open>Math.pow\<close>
  with a positive base, \<^verbatim>\<open>Math.min\<close>, \<^verbatim>\<open>Math.max\<close> and \<^verbatim>\<open>Math.abs\<close> are
  \<open>sqrt\<close>, \<open>powr\<close>, \<open>min\<close>, \<open>max\<close> and \<open>abs\<close>. The vector and quaternion methods
  are those of the three.js library the program imports, written out componentwise
  (\<open>vx\<close>, \<open>vy\<close>, \<open>vz\<close> are the fields \<^verbatim>\<open>x\<close>, \<^verbatim>\<open>y\<close>, \<^verbatim>\<open>z\<close> of a vector).
  Rounding is not modelled: what holds of the doubles only up to rounding error (the
  length of a vector after \<^verbatim>\<open>setLength\<close> comes out as the requested length here, and
  within a few units in the last place of it in the program) is not stated as a fact
  about the program, and neither is anything about the wall clock behind
  \<^verbatim>\<open>clock.getDelta()\<close>.
  The scene graph, the chase camera and the HUD text fields are outputs that the update
  writes and never reads back; of those only the stall warning and the vertical-speed
  readout (with its \<^verbatim>\<open>prevAltitude\<close> cache) are kept.
\<close>

subsection \<open>three.js vectors and quaternions\<close>

datatype vector3 = Vector3 (vx: real) (vy: real) (vz: real)

datatype quaternion = Quaternion (qx: real) (qy: real) (qz: real) (qw: real)

definition vlength :: "vector3 \<Rightarrow> real" where
  "vlength v = sqrt (vx v * vx v + vy v * vy v + vz v * vz v)"

definition multiplyScalar :: "vector3 \<Rightarrow> real \<Rightarrow> vector3" where
  "multiplyScalar v k = Vector3 (vx v * k) (vy v * k) (vz v * k)"

definition divideScalar :: "vector3 \<Rightarrow> real \<Rightarrow> vector3" where
  "divideScalar v k = multiplyScalar v (1 / k)"

definition normalize :: "vector3 \<Rightarrow> vector3" where
  \<comment> \<open>\<^verbatim>\<open>divideScalar(this.length() || 1)\<close>\<close>
  "normalize v = divideScalar v (if vlength v = 0 then 1 else vlength v)"

definition setLength :: "vector3 \<Rightarrow> real \<Rightarrow> vector3" where
  "setLength v l = multiplyScalar (normalize v) l"

definition addScaledVector :: "vector3 \<Rightarrow> vector3 \<Rightarrow> real \<Rightarrow> vector3" where
  "addScaledVector a v k = Vector3 (vx a + vx v * k) (vy a + vy v * k) (vz a + vz v * k)"

definition setFromAxisAngle :: "vector3 \<Rightarrow> real \<Rightarrow> quaternion" where
  "setFromAxisAngle axis angle =
     (let halfAngle = angle / 2; s = sin halfAngle
      in Quaternion (vx axis * s) (vy axis * s) (vz axis * s) (cos halfAngle))"

definition multiplyQuaternions :: "quaternion \<Rightarrow> quaternion \<Rightarrow> quaternion" where
  "multiplyQuaternions a b = Quaternion
     (qx a * qw b + qw a * qx b + qy a * qz b - qz a * qy b)
     (qy a * qw b + qw a * qy b + qz a * qx b - qx a * qz b)
     (qz a * qw b + qw a * qz b + qx a * qy b - qy a * qx b)
     (qw a * qw b - qx a * qx b - qy a * qy b - qz a * qz b)"

definition applyQuaternion :: "vector3 \<Rightarrow> quaternion \<Rightarrow> vector3" where
  "applyQuaternion v q =
     (let tx = 2 * (qy q * vz v - qz q * vy v);
          ty = 2 * (qz q * vx v - qx q * vz v);
          tz = 2 * (qx q * vy v - qy q * vx v)
      in Vector3 (vx v + qw q * tx + qy q * tz - qz q * ty)
                 (vy v + qw q * ty + qz q * tx - qx q * tz)
                 (vz v + qw q * tz + qx q * ty - qy q * tx))"

subsection \<open>Flight state and constants\<close>

record state =
  position :: vector3
  velocity :: vector3
  pitch :: real
  roll :: real
  yaw :: real
  throttle :: real
  speed :: real
  gForce :: real
  onGround :: bool

definition initial_state :: state where
  "initial_state = \<lparr>position = Vector3 0 2 0, velocity = Vector3 0 0 0, pitch = 0, roll = 0,
     yaw = 0, throttle = 0.3, speed = 0, gForce = 1.0, onGround = True\<rparr>"

definition GRAVITY :: real where "GRAVITY = 9.81"
definition MAX_SPEED :: real where "MAX_SPEED = 110"
definition STALL_SPEED :: real where "STALL_SPEED = 20"
definition LIFT_FACTOR :: real where "LIFT_FACTOR = 0.0038"
definition DRAG_FACTOR :: real where "DRAG_FACTOR = 0.0018"
definition THRUST_ACCEL :: real where "THRUST_ACCEL = 22"
definition PITCH_RATE :: real where "PITCH_RATE = 1.2"
definition ROLL_RATE :: real where "ROLL_RATE = 1.6"
definition YAW_RATE :: real where "YAW_RATE = 0.5"
definition MAX_PITCH :: real where "MAX_PITCH = pi / 2.5"
definition MAX_ROLL :: real where "MAX_ROLL = pi * 0.8"
definition ROLL_DAMPING :: real where "ROLL_DAMPING = 0.97"
definition PITCH_DAMPING :: real where "PITCH_DAMPING = 0.97"
definition GROUND_FRICTION :: real where "GROUND_FRICTION = 0.998"
definition GROUND_ANGLE_DAMPING :: real where "GROUND_ANGLE_DAMPING = 0.9"

text \<open>The \<^verbatim>\<open>keys\<close> object: a key code is held iff its entry is truthy.\<close>

type_synonym keys = "string \<Rightarrow> bool"

subsection \<open>Reset\<close>

definition resetAirplane :: "state \<Rightarrow> state" where
  "resetAirplane s = s\<lparr>position := Vector3 0 2 0, velocity := Vector3 0 0 0, pitch := 0,
     roll := 0, yaw := 0, throttle := 0.3, speed := 0, onGround := True\<rparr>"

subsection \<open>Controls\<close>

definition pitch_keys :: "keys \<Rightarrow> real \<Rightarrow> state \<Rightarrow> state" where
  "pitch_keys keys dt s =
     (let s1 = (if keys ''KeyW'' then s\<lparr>pitch := pitch s - PITCH_RATE * dt\<rparr> else s)
      in (if keys ''KeyS'' then s1\<lparr>pitch := pitch s1 + PITCH_RATE * dt\<rparr> else s1))"

definition roll_keys :: "keys \<Rightarrow> real \<Rightarrow> state \<Rightarrow> state" where
  "roll_keys keys dt s =
     (let s1 = (if keys ''KeyA'' then s\<lparr>roll := roll s - ROLL_RATE * dt\<rparr> else s)
      in (if keys ''KeyD'' then s1\<lparr>roll := roll s1 + ROLL_RATE * dt\<rparr> else s1))"

definition yaw_keys :: "keys \<Rightarrow> real \<Rightarrow> state \<Rightarrow> state" where
  "yaw_keys keys dt s =
     (let s1 = (if keys ''KeyQ'' then s\<lparr>yaw := yaw s + YAW_RATE * dt\<rparr> else s)
      in (if keys ''KeyE'' then s1\<lparr>yaw := yaw s1 - YAW_RATE * dt\<rparr> else s1))"

definition throttle_keys :: "keys \<Rightarrow> real \<Rightarrow> state \<Rightarrow> state" where
  "throttle_keys keys dt s =
     (let s1 = (if keys ''ArrowUp''
                then s\<lparr>throttle := min 1 (throttle s + dt * 0.6)\<rparr> else s)
      in (if keys ''ArrowDown''
          then s1\<lparr>throttle := max 0 (throttle s1 - dt * 0.6)\<rparr> else s1))"

definition apply_keys :: "keys \<Rightarrow> real \<Rightarrow> state \<Rightarrow> state" where
  "apply_keys keys dt s =
     throttle_keys keys dt (yaw_keys keys dt (roll_keys keys dt (pitch_keys keys dt s)))"

definition reset_key :: "keys \<Rightarrow> state \<Rightarrow> state" where
  "reset_key keys s = (if keys ''Space'' then resetAirplane s else s)"

definition clamp_angles :: "state \<Rightarrow> state" where
  "clamp_angles s =
     (let s1 = s\<lparr>pitch := max (- MAX_PITCH) (min MAX_PITCH (pitch s))\<rparr>
      in s1\<lparr>roll := max (- MAX_ROLL) (min MAX_ROLL (roll s1))\<rparr>)"

definition yaw_coupling :: "real \<Rightarrow> state \<Rightarrow> state" where
  "yaw_coupling dt s = s\<lparr>yaw := yaw s + roll s * 0.35 * dt\<rparr>"

definition auto_level :: "keys \<Rightarrow> real \<Rightarrow> state \<Rightarrow> state" where
  "auto_level keys dt s =
     (let s1 = (if \<not> keys ''KeyA'' \<and> \<not> keys ''KeyD''
                then s\<lparr>roll := roll s * (ROLL_DAMPING powr (dt * 60))\<rparr> else s)
      in (if \<not> keys ''KeyW'' \<and> \<not> keys ''KeyS''
          then s1\<lparr>pitch := pitch s1 * (PITCH_DAMPING powr (dt * 60))\<rparr> else s1))"

definition controls :: "keys \<Rightarrow> real \<Rightarrow> state \<Rightarrow> state" where
  "controls keys dt s =
     auto_level keys dt (yaw_coupling dt (clamp_angles (reset_key keys (apply_keys keys dt s))))"

subsection \<open>Physics\<close>

definition orientation :: "state \<Rightarrow> quaternion" where
  "orientation s =
     (let qYaw = setFromAxisAngle (Vector3 0 1 0) (yaw s);
          qPitch = setFromAxisAngle (Vector3 0 0 1) (pitch s);
          qRoll = setFromAxisAngle (Vector3 1 0 0) (roll s)
      in multiplyQuaternions (multiplyQuaternions qYaw qPitch) qRoll)"

definition forward :: "state \<Rightarrow> vector3" where
  "forward s = applyQuaternion (Vector3 1 0 0) (orientation s)"

definition upWorld :: "state \<Rightarrow> vector3" where
  "upWorld s = applyQuaternion (Vector3 0 1 0) (orientation s)"

definition measure_speed :: "state \<Rightarrow> state" where
  "measure_speed s = s\<lparr>speed := vlength (velocity s)\<rparr>"

definition isStalled :: "state \<Rightarrow> bool" where
  "isStalled s = (speed s < STALL_SPEED \<and> \<not> onGround s)"

definition liftAcc :: "state \<Rightarrow> real" where
  "liftAcc s = (if isStalled s then 0 else speed s * speed s * LIFT_FACTOR)"

definition dragAcc :: "state \<Rightarrow> real" where
  "dragAcc s = speed s * speed s * DRAG_FACTOR"

text \<open>
  The factor handed to \<^verbatim>\<open>addScaledVector\<close> in the drag block, \<^verbatim>\<open>-dragAcc / state.speed\<close>;
  \<open>None\<close> when the guard \<^verbatim>\<open>state.speed > 0.01\<close> skips the block, so that no division
  takes place.
\<close>

definition drag_scale :: "state \<Rightarrow> real option" where
  "drag_scale s = (if speed s > 0.01 then Some (- dragAcc s / speed s) else None)"

definition acceleration :: "state \<Rightarrow> vector3" where
  "acceleration s =
     (let acc0 = Vector3 0 0 0;
          acc1 = addScaledVector acc0 (forward s) (throttle s * THRUST_ACCEL);
          acc2 = addScaledVector acc1 (upWorld s) (liftAcc s);
          acc3 = (case drag_scale s of
                    Some k \<Rightarrow> addScaledVector acc2 (velocity s) k
                  | None \<Rightarrow> acc2)
      in Vector3 (vx acc3) (vy acc3 - GRAVITY) (vz acc3))"

definition integrate_velocity :: "real \<Rightarrow> state \<Rightarrow> state" where
  "integrate_velocity dt s = s\<lparr>velocity := addScaledVector (velocity s) (acceleration s) dt\<rparr>"

definition speed_cap :: "state \<Rightarrow> state" where
  "speed_cap s =
     (if vlength (velocity s) > MAX_SPEED
      then s\<lparr>velocity := setLength (velocity s) MAX_SPEED\<rparr> else s)"

definition groundY :: real where "groundY = 1.1"

definition ground_constraint :: "real \<Rightarrow> state \<Rightarrow> state" where
  "ground_constraint dt s =
     (if vy (position s) \<le> groundY
      then (let p = position s;
                s1 = s\<lparr>position := Vector3 (vx p) groundY (vz p)\<rparr>;
                v1 = velocity s1;
                s2 = (if vy v1 < 0 then s1\<lparr>velocity := Vector3 (vx v1) 0 (vz v1)\<rparr> else s1);
                v2 = velocity s2;
                s3 = s2\<lparr>velocity :=
                       Vector3 (vx v2 * (GROUND_FRICTION powr (dt * 60))) (vy v2) (vz v2)\<rparr>;
                v3 = velocity s3;
                s4 = s3\<lparr>velocity :=
                       Vector3 (vx v3) (vy v3) (vz v3 * (GROUND_FRICTION powr (dt * 60)))\<rparr>;
                s5 = s4\<lparr>onGround := True\<rparr>;
                s6 = s5\<lparr>pitch := pitch s5 * (GROUND_ANGLE_DAMPING powr (dt * 60))\<rparr>
            in s6\<lparr>roll := roll s6 * (GROUND_ANGLE_DAMPING powr (dt * 60))\<rparr>)
      else s\<lparr>onGround := False\<rparr>)"

definition integrate_position :: "real \<Rightarrow> state \<Rightarrow> state" where
  "integrate_position dt s = s\<lparr>position := addScaledVector (position s) (velocity s) dt\<rparr>"

subsection \<open>The update loop\<close>

text \<open>
  The module-level variables the update mutates: the flight state, the altitude cache
  of the vertical-speed readout, and two HUD outputs. The vertical-speed quotient is
  \<open>None\<close> where JavaScript yields a non-finite number (division by \<open>dt = 0\<close>).
  Before the first frame the two HUD outputs show what the page declares; every frame
  overwrites them, and here they start as \<open>False\<close> and \<open>None\<close>.
\<close>

record world =
  craft :: state
  prevAltitude :: real
  stallWarning :: bool
  vsi :: "real option"

definition initial_world :: world where
  "initial_world = \<lparr>craft = initial_state, prevAltitude = 0, stallWarning = False, vsi = None\<rparr>"

text \<open>The state as it enters the physics section: controls applied, speed measured.\<close>

definition physics_entry :: "keys \<Rightarrow> real \<Rightarrow> state \<Rightarrow> state" where
  "physics_entry keys dt s = measure_speed (controls keys dt s)"

text \<open>Velocity integration, speed cap, ground constraint, position integration, g-force.\<close>

definition motion :: "real \<Rightarrow> state \<Rightarrow> state" where
  "motion dt s =
     (let lift = liftAcc s;
          s1 = integrate_position dt (ground_constraint dt (speed_cap (integrate_velocity dt s)))
      in s1\<lparr>gForce := \<bar>lift / GRAVITY\<bar> + 1.0\<rparr>)"

text \<open>
  One call of \<^verbatim>\<open>update()\<close>; \<open>delta\<close> is what \<^verbatim>\<open>clock.getDelta()\<close> returns.
\<close>

definition update :: "keys \<Rightarrow> real \<Rightarrow> world \<Rightarrow> world" where
  "update keys delta w =
     (let dt = min delta 0.05;
          s = physics_entry keys dt (craft w);
          s' = motion dt s
      in \<lparr>craft = s',
          prevAltitude = vy (position s'),
          stallWarning = isStalled s,
          vsi = (if dt = 0 then None else Some ((vy (position s') - prevAltitude w) / dt))\<rparr>)"

text \<open>A sequence of frames, each with the keys held and the clock delta of that frame.\<close>

fun run :: "(keys \<times> real) list \<Rightarrow> world \<Rightarrow> world" where
  "run [] w = w"
| "run ((keys, delta) # rest) w = run rest (update keys delta w)"

definition no_keys :: keys where
  "no_keys = (\<lambda>code. False)"

definition space_key :: keys where
  "space_key = (\<lambda>code. code = ''Space'')"

subsection \<open>Auxiliary notions for the analysis\<close>

text \<open>
  A level, airborne, descending state at the default throttle: the horizontal speed is
  at most \<open>A\<close>, the sink rate lies between \<open>Bh\<close> and \<open>Bl\<close>, and the height lies
  between \<open>Yl\<close> and \<open>Yh\<close>. It is used to follow the craft as it drops from the spawn
  height.
\<close>

definition falling :: "real \<Rightarrow> real \<Rightarrow> real \<Rightarrow> real \<Rightarrow> real \<Rightarrow> state \<Rightarrow> bool" where
  "falling A Bl Bh Yl Yh s \<longleftrightarrow>
     pitch s = 0 \<and> roll s = 0 \<and> yaw s = 0 \<and> throttle s = 0.3 \<and> \<not> onGround s \<and>
     vz (velocity s) = 0 \<and> 0 \<le> vx (velocity s) \<and> vx (velocity s) \<le> A \<and>
     - Bl \<le> vy (velocity s) \<and> vy (velocity s) \<le> - Bh \<and> 0 \<le> Bh \<and>
     Yl \<le> vy (position s) \<and> vy (position s) \<le> Yh"

text \<open>The craft at rest below the gear height, everything else as in the initial state.\<close>

definition parked_world :: world where
  "parked_world = initial_world\<lparr>craft := initial_state\<lparr>position := Vector3 0 1 0\<rparr>\<rparr>"

section \<open>Auxiliary facts\<close>

lemma pitch_keys_frame [simp]:
  "onGround (pitch_keys keys dt s) = onGround s"
  "velocity (pitch_keys keys dt s) = velocity s"
  "position (pitch_keys keys dt s) = position s"
  "speed (pitch_keys keys dt s) = speed s"
  "gForce (pitch_keys keys dt s) = gForce s"
  "roll (pitch_keys keys dt s) = roll s"
  "yaw (pitch_keys keys dt s) = yaw s"
  "throttle (pitch_keys keys dt s) = throttle s"
  by (simp_all add: pitch_keys_def Let_def)

lemma roll_keys_frame [simp]:
  "onGround (roll_keys keys dt s) = onGround s"
  "velocity (roll_keys keys dt s) = velocity s"
  "position (roll_keys keys dt s) = position s"
  "speed (roll_keys keys dt s) = speed s"
  "gForce (roll_keys keys dt s) = gForce s"
  "pitch (roll_keys keys dt s) = pitch s"
  "yaw (roll_keys keys dt s) = yaw s"
  "throttle (roll_keys keys dt s) = throttle s"
  by (simp_all add: roll_keys_def Let_def)

lemma yaw_keys_frame [simp]:
  "onGround (yaw_keys keys dt s) = onGround s"
  "velocity (yaw_keys keys dt s) = velocity s"
  "position (yaw_keys keys dt s) = position s"
  "speed (yaw_keys keys dt s) = speed s"
  "gForce (yaw_keys keys dt s) = gForce s"
  "pitch (yaw_keys keys dt s) = pitch s"
  "roll (yaw_keys keys dt s) = roll s"
  "throttle (yaw_keys keys dt s) = throttle s"
  by (simp_all add: yaw_keys_def Let_def)

lemma throttle_keys_frame [simp]:
  "onGround (throttle_keys keys dt s) = onGround s"
  "velocity (throttle_keys keys dt s) = velocity s"
  "position (throttle_keys keys dt s) = position s"
  "speed (throttle_keys keys dt s) = speed s"
  "gForce (throttle_keys keys dt s) = gForce s"
  "pitch (throttle_keys keys dt s) = pitch s"
  "roll (throttle_keys keys dt s) = roll s"
  "yaw (throttle_keys keys dt s) = yaw s"
  by (simp_all add: throttle_keys_def Let_def)

lemma apply_keys_frame [simp]:
  "onGround (apply_keys keys dt s) = onGround s"
  "velocity (apply_keys keys dt s) = velocity s"
  "position (apply_keys keys dt s) = position s"
  "speed (apply_keys keys dt s) = speed s"
  "gForce (apply_keys keys dt s) = gForce s"
  by (simp_all add: apply_keys_def)

lemma reset_key_simps:
  "onGround (reset_key keys s) = (keys ''Space'' \<or> onGround s)"
  "velocity (reset_key keys s) = (if keys ''Space'' then Vector3 0 0 0 else velocity s)"
  "position (reset_key keys s) = (if keys ''Space'' then Vector3 0 2 0 else position s)"
  "gForce (reset_key keys s) = gForce s"
  by (simp_all add: reset_key_def resetAirplane_def)

lemma clamp_angles_frame [simp]:
  "onGround (clamp_angles s) = onGround s"
  "velocity (clamp_angles s) = velocity s"
  "position (clamp_angles s) = position s"
  "yaw (clamp_angles s) = yaw s"
  "throttle (clamp_angles s) = throttle s"
  by (simp_all add: clamp_angles_def Let_def)

lemma yaw_coupling_frame [simp]:
  "onGround (yaw_coupling dt s) = onGround s"
  "velocity (yaw_coupling dt s) = velocity s"
  "position (yaw_coupling dt s) = position s"
  "pitch (yaw_coupling dt s) = pitch s"
  "roll (yaw_coupling dt s) = roll s"
  "throttle (yaw_coupling dt s) = throttle s"
  by (simp_all add: yaw_coupling_def)

lemma auto_level_frame [simp]:
  "onGround (auto_level keys dt s) = onGround s"
  "velocity (auto_level keys dt s) = velocity s"
  "position (auto_level keys dt s) = position s"
  "yaw (auto_level keys dt s) = yaw s"
  "throttle (auto_level keys dt s) = throttle s"
  by (simp_all add: auto_level_def Let_def)

lemma controls_onGround: "onGround (controls keys dt s) = (keys ''Space'' \<or> onGround s)"
  by (simp add: controls_def reset_key_simps)

lemma controls_velocity:
  "velocity (controls keys dt s) = (if keys ''Space'' then Vector3 0 0 0 else velocity s)"
  by (simp add: controls_def reset_key_simps)

lemma controls_position:
  "position (controls keys dt s) = (if keys ''Space'' then Vector3 0 2 0 else position s)"
  by (simp add: controls_def reset_key_simps)

lemma motion_speed: "speed (motion dt s) = speed s"
  by (simp add: motion_def integrate_position_def ground_constraint_def speed_cap_def
      integrate_velocity_def Let_def)

lemma motion_gForce: "gForce (motion dt s) = \<bar>liftAcc s / GRAVITY\<bar> + 1"
  by (simp add: motion_def)

lemma craft_update: "craft (update keys delta w) =
   motion (min delta 0.05) (physics_entry keys (min delta 0.05) (craft w))"
  by (simp add: update_def Let_def)

lemma stallWarning_update: "stallWarning (update keys delta w) =
   isStalled (physics_entry keys (min delta 0.05) (craft w))"
  by (simp add: update_def Let_def)


lemma motion_onGround: "onGround (motion dt s) = (vy (position s) \<le> groundY)"
  by (simp add: motion_def integrate_position_def ground_constraint_def speed_cap_def
      integrate_velocity_def Let_def)

lemma physics_entry_simps:
  "onGround (physics_entry keys dt s) = (keys ''Space'' \<or> onGround s)"
  "velocity (physics_entry keys dt s) = (if keys ''Space'' then Vector3 0 0 0 else velocity s)"
  "position (physics_entry keys dt s) = (if keys ''Space'' then Vector3 0 2 0 else position s)"
  "speed (physics_entry keys dt s) = (if keys ''Space'' then 0 else vlength (velocity s))"
  by (simp_all add: physics_entry_def measure_speed_def controls_onGround controls_velocity
      controls_position vlength_def)

lemma initial_simps:
  "craft initial_world = initial_state"
  "position initial_state = Vector3 0 2 0"
  "velocity initial_state = Vector3 0 0 0"
  "onGround initial_state = True"
  by (simp_all add: initial_world_def initial_state_def)

lemma onGround_update:
  "onGround (craft (update keys delta w)) =
     (if keys ''Space'' then False else vy (position (craft w)) \<le> groundY)"
  by (simp add: craft_update motion_onGround physics_entry_simps groundY_def)

lemma MAX_PITCH_pos: "0 < MAX_PITCH"
  by (simp add: MAX_PITCH_def)

lemma MAX_ROLL_pos: "0 < MAX_ROLL"
  by (simp add: MAX_ROLL_def)

lemma vlength_nonneg: "0 \<le> vlength v"
  by (simp add: vlength_def)

lemma vlength_le:
  assumes "a * a + b * b + c * c \<le> m * m" and "0 \<le> m"
  shows "vlength (Vector3 a b c) \<le> m"
  using assms by (simp add: vlength_def real_le_lsqrt power2_eq_square)

lemma vlength_multiplyScalar: "vlength (multiplyScalar v k) = \<bar>k\<bar> * vlength v"
proof -
  have "vx v * k * (vx v * k) + vy v * k * (vy v * k) + vz v * k * (vz v * k)
        = (k * k) * (vx v * vx v + vy v * vy v + vz v * vz v)"
    by (simp add: algebra_simps)
  then show ?thesis
    by (simp add: vlength_def multiplyScalar_def real_sqrt_mult)
qed

lemma damping_range:
  fixes dt b :: real
  assumes "0 \<le> dt" and "0 \<le> b" and "b \<le> 1"
  shows "0 \<le> b powr (dt * 60)" and "b powr (dt * 60) \<le> 1"
  using assms by (simp_all add: powr_le1)

lemma abs_damped:
  fixes x f :: real
  assumes "0 \<le> f" and "f \<le> 1"
  shows "\<bar>x * f\<bar> \<le> \<bar>x\<bar>"
proof -
  have "\<bar>x * f\<bar> = \<bar>x\<bar> * f" using assms by (simp add: abs_mult)
  also have "\<dots> \<le> \<bar>x\<bar> * 1" using assms by (intro mult_left_mono) simp_all
  finally show ?thesis by simp
qed

lemma ground_constraint_velocity:
  "velocity (ground_constraint dt s) =
     (if vy (position s) \<le> groundY
      then Vector3 (vx (velocity s) * (GROUND_FRICTION powr (dt * 60)))
                   (if vy (velocity s) < 0 then 0 else vy (velocity s))
                   (vz (velocity s) * (GROUND_FRICTION powr (dt * 60)))
      else velocity s)"
  by (simp add: ground_constraint_def Let_def)

lemma ground_constraint_position:
  "position (ground_constraint dt s) =
     (if vy (position s) \<le> groundY
      then Vector3 (vx (position s)) groundY (vz (position s))
      else position s)"
  by (simp add: ground_constraint_def Let_def)

lemma motion_velocity:
  "velocity (motion dt s) = velocity (ground_constraint dt (speed_cap (integrate_velocity dt s)))"
  by (simp add: motion_def integrate_position_def)

lemma resetAirplane_absorbs_keys: "resetAirplane (apply_keys keys dt s) = resetAirplane s"
proof -
  have "resetAirplane (pitch_keys keys dt s) = resetAirplane s" for s
    by (simp add: resetAirplane_def pitch_keys_def Let_def)
  moreover have "resetAirplane (roll_keys keys dt s) = resetAirplane s" for s
    by (simp add: resetAirplane_def roll_keys_def Let_def)
  moreover have "resetAirplane (yaw_keys keys dt s) = resetAirplane s" for s
    by (simp add: resetAirplane_def yaw_keys_def Let_def)
  moreover have "resetAirplane (throttle_keys keys dt s) = resetAirplane s" for s
    by (simp add: resetAirplane_def throttle_keys_def Let_def)
  ultimately show ?thesis by (simp add: apply_keys_def)
qed

lemma clamp_zero:
  "max (- MAX_PITCH) (min MAX_PITCH 0) = 0" "max (- MAX_ROLL) (min MAX_ROLL 0) = 0"
  using MAX_PITCH_pos MAX_ROLL_pos by simp_all

lemma controls_level:
  assumes "pitch s = 0" and "roll s = 0"
  shows "auto_level keys dt (yaw_coupling dt (clamp_angles s)) = s"
  using assms by (simp add: auto_level_def yaw_coupling_def clamp_angles_def Let_def clamp_zero)

lemma controls_reset:
  assumes "keys ''Space''"
  shows "controls keys dt s = resetAirplane s"
proof -
  have "controls keys dt s = auto_level keys dt (yaw_coupling dt (clamp_angles (resetAirplane s)))"
    using assms by (simp add: controls_def reset_key_def resetAirplane_absorbs_keys)
  also have "\<dots> = resetAirplane s"
    by (rule controls_level) (simp_all add: resetAirplane_def)
  finally show ?thesis .
qed

lemma apply_no_keys: "apply_keys no_keys dt s = s"
  by (simp add: apply_keys_def pitch_keys_def roll_keys_def yaw_keys_def throttle_keys_def
      no_keys_def)

lemma controls_idle_level:
  assumes "pitch s = 0" and "roll s = 0"
  shows "controls no_keys dt s = s"
proof -
  have "controls no_keys dt s = auto_level no_keys dt (yaw_coupling dt (clamp_angles s))"
    by (simp add: controls_def reset_key_def apply_no_keys) (simp add: no_keys_def)
  with assms show ?thesis by (simp add: controls_level)
qed

lemma level_axes:
  assumes "pitch s = 0" and "roll s = 0" and "yaw s = 0"
  shows "forward s = Vector3 1 0 0" and "upWorld s = Vector3 0 1 0"
  using assms
  by (simp_all add: forward_def upWorld_def orientation_def setFromAxisAngle_def
      multiplyQuaternions_def applyQuaternion_def Let_def)

lemma acceleration_level:
  assumes "pitch s = 0" and "roll s = 0" and "yaw s = 0"
  shows "acceleration s =
     (let d = (if speed s > 0.01 then - (speed s * DRAG_FACTOR) else 0)
      in Vector3 (throttle s * THRUST_ACCEL + vx (velocity s) * d)
                 (liftAcc s + vy (velocity s) * d - GRAVITY)
                 (vz (velocity s) * d))"
  by (simp add: acceleration_def level_axes [OF assms] addScaledVector_def drag_scale_def
      dragAcc_def Let_def)

lemma reset_tick_speed:
  fixes dt :: real
  assumes "\<bar>dt\<bar> \<le> 1"
  shows "vlength (Vector3 (6.6 * dt) (- (9.81 * dt)) 0) \<le> 12"
proof -
  have "dt * dt \<le> 1" using assms by (simp add: abs_le_square_iff [of dt 1, simplified] power2_eq_square)
  then have "6.6 * dt * (6.6 * dt) + - (9.81 * dt) * - (9.81 * dt) + 0 * 0 \<le> 12 * (12::real)"
    by (simp add: algebra_simps)
  then show ?thesis by (intro vlength_le) simp_all
qed

lemma measure_speed_reset: "measure_speed (resetAirplane s) = resetAirplane s"
  by (simp add: measure_speed_def resetAirplane_def vlength_def)

lemma motion_after_reset:
  fixes s :: state
  assumes "\<bar>dt\<bar> \<le> 1"
  shows "motion dt (resetAirplane s) =
     \<lparr>position = Vector3 (6.6 * dt * dt) (2 - 9.81 * dt * dt) 0,
      velocity = Vector3 (6.6 * dt) (- (9.81 * dt)) 0,
      pitch = 0, roll = 0, yaw = 0, throttle = 0.3, speed = 0, gForce = 1,
      onGround = False\<rparr>"
proof -
  let ?r = "resetAirplane s"
  let ?v = "Vector3 (6.6 * dt) (- (9.81 * dt)) 0"
  have lift: "liftAcc ?r = 0"
    by (simp add: liftAcc_def isStalled_def resetAirplane_def)
  have acc: "acceleration ?r = Vector3 6.6 (- 9.81) 0"
    by (subst acceleration_level)
      (simp_all add: lift, simp_all add: resetAirplane_def THRUST_ACCEL_def GRAVITY_def)
  have iv: "integrate_velocity dt ?r = ?r\<lparr>velocity := ?v\<rparr>"
    by (simp add: integrate_velocity_def acc addScaledVector_def) (simp add: resetAirplane_def)
  have "\<not> vlength ?v > MAX_SPEED"
    using reset_tick_speed [OF assms] by (simp add: MAX_SPEED_def)
  then have cap: "speed_cap (?r\<lparr>velocity := ?v\<rparr>) = ?r\<lparr>velocity := ?v\<rparr>"
    by (simp add: speed_cap_def)
  have gc: "ground_constraint dt (?r\<lparr>velocity := ?v\<rparr>) = ?r\<lparr>velocity := ?v, onGround := False\<rparr>"
    by (simp add: ground_constraint_def groundY_def resetAirplane_def)
  have ip: "integrate_position dt (?r\<lparr>velocity := ?v, onGround := False\<rparr>) =
      ?r\<lparr>velocity := ?v, onGround := False,
          position := Vector3 (6.6 * dt * dt) (2 - 9.81 * dt * dt) 0\<rparr>"
    by (simp add: integrate_position_def addScaledVector_def resetAirplane_def)
  have "motion dt ?r =
      (integrate_position dt (ground_constraint dt (speed_cap (integrate_velocity dt ?r))))
        \<lparr>gForce := \<bar>liftAcc ?r / GRAVITY\<bar> + 1.0\<rparr>"
    by (simp add: motion_def)
  also have "\<dots> = (?r\<lparr>velocity := ?v, onGround := False,
          position := Vector3 (6.6 * dt * dt) (2 - 9.81 * dt * dt) 0\<rparr>)\<lparr>gForce := 1\<rparr>"
    unfolding iv cap gc ip lift by simp
  finally show ?thesis by (simp add: resetAirplane_def)
qed

lemma vlength_axis: "vlength (Vector3 a 0 0) = \<bar>a\<bar>"
  by (simp add: vlength_def)

lemma initial_is_reset: "resetAirplane initial_state = initial_state"
  by (simp add: resetAirplane_def initial_state_def)

lemma physics_entry_initial: "physics_entry no_keys dt initial_state = initial_state"
proof -
  have "controls no_keys dt initial_state = initial_state"
    by (rule controls_idle_level) (simp_all add: initial_state_def)
  then show ?thesis
    by (simp add: physics_entry_def measure_speed_def) (simp add: initial_state_def vlength_def)
qed

lemma first_tick:
  "craft (update no_keys 0.05 initial_world) =
     \<lparr>position = Vector3 0.0165 1.975475 0, velocity = Vector3 0.33 (- 0.4905) 0,
      pitch = 0, roll = 0, yaw = 0, throttle = 0.3, speed = 0, gForce = 1,
      onGround = False\<rparr>"
proof -
  have "craft (update no_keys 0.05 initial_world) = motion 0.05 (resetAirplane initial_state)"
    by (simp add: craft_update initial_simps physics_entry_initial initial_is_reset)
  also have "\<dots> = \<lparr>position = Vector3 (6.6 * 0.05 * 0.05) (2 - 9.81 * 0.05 * 0.05) 0,
      velocity = Vector3 (6.6 * 0.05) (- (9.81 * 0.05)) 0,
      pitch = 0, roll = 0, yaw = 0, throttle = 0.3, speed = 0, gForce = 1,
      onGround = False\<rparr>"
    by (rule motion_after_reset) simp
  finally show ?thesis by simp
qed

lemma clamp_abs:
  fixes x m :: real
  assumes "0 \<le> m"
  shows "\<bar>max (- m) (min m x)\<bar> \<le> m" and "\<bar>max (- m) (min m x)\<bar> \<le> \<bar>x\<bar>"
  using assms by auto

lemma clamp_id:
  fixes x m :: real
  assumes "\<bar>x\<bar> \<le> m"
  shows "max (- m) (min m x) = x"
  using assms by auto

lemma clamp_angles_simps:
  "pitch (clamp_angles s) = max (- MAX_PITCH) (min MAX_PITCH (pitch s))"
  "roll (clamp_angles s) = max (- MAX_ROLL) (min MAX_ROLL (roll s))"
  by (simp_all add: clamp_angles_def Let_def)

lemma auto_level_simps:
  "pitch (auto_level keys dt s) =
     (if \<not> keys ''KeyW'' \<and> \<not> keys ''KeyS'' then pitch s * (PITCH_DAMPING powr (dt * 60))
      else pitch s)"
  "roll (auto_level keys dt s) =
     (if \<not> keys ''KeyA'' \<and> \<not> keys ''KeyD'' then roll s * (ROLL_DAMPING powr (dt * 60))
      else roll s)"
  by (simp_all add: auto_level_def Let_def)

lemma controls_angles_bounded:
  assumes "0 \<le> dt"
  shows "\<bar>pitch (controls keys dt s)\<bar> \<le> MAX_PITCH" and "\<bar>roll (controls keys dt s)\<bar> \<le> MAX_ROLL"
proof -
  let ?c = "clamp_angles (reset_key keys (apply_keys keys dt s))"
  have p: "\<bar>pitch ?c\<bar> \<le> MAX_PITCH" and r: "\<bar>roll ?c\<bar> \<le> MAX_ROLL"
    using MAX_PITCH_pos MAX_ROLL_pos by (simp_all add: clamp_angles_simps clamp_abs)
  have fp: "0 \<le> PITCH_DAMPING powr (dt * 60)" "PITCH_DAMPING powr (dt * 60) \<le> 1"
    using assms by (simp_all add: damping_range PITCH_DAMPING_def)
  have fr: "0 \<le> ROLL_DAMPING powr (dt * 60)" "ROLL_DAMPING powr (dt * 60) \<le> 1"
    using assms by (simp_all add: damping_range ROLL_DAMPING_def)
  have "\<bar>pitch ?c * (PITCH_DAMPING powr (dt * 60))\<bar> \<le> \<bar>pitch ?c\<bar>"
    by (rule abs_damped [OF fp])
  with p show "\<bar>pitch (controls keys dt s)\<bar> \<le> MAX_PITCH"
    by (simp add: controls_def auto_level_simps)
  have "\<bar>roll ?c * (ROLL_DAMPING powr (dt * 60))\<bar> \<le> \<bar>roll ?c\<bar>"
    by (rule abs_damped [OF fr])
  with r show "\<bar>roll (controls keys dt s)\<bar> \<le> MAX_ROLL"
    by (simp add: controls_def auto_level_simps)
qed

lemma motion_angles:
  "pitch (motion dt s) =
     (if vy (position s) \<le> groundY then pitch s * (GROUND_ANGLE_DAMPING powr (dt * 60))
      else pitch s)"
  "roll (motion dt s) =
     (if vy (position s) \<le> groundY then roll s * (GROUND_ANGLE_DAMPING powr (dt * 60))
      else roll s)"
  "yaw (motion dt s) = yaw s"
  "throttle (motion dt s) = throttle s"
  by (simp_all add: motion_def integrate_position_def ground_constraint_def speed_cap_def
      integrate_velocity_def Let_def)

lemma motion_angles_le:
  assumes "0 \<le> dt"
  shows "\<bar>pitch (motion dt s)\<bar> \<le> \<bar>pitch s\<bar>" and "\<bar>roll (motion dt s)\<bar> \<le> \<bar>roll s\<bar>"
proof -
  have f: "0 \<le> GROUND_ANGLE_DAMPING powr (dt * 60)" "GROUND_ANGLE_DAMPING powr (dt * 60) \<le> 1"
    using assms by (simp_all add: damping_range GROUND_ANGLE_DAMPING_def)
  show "\<bar>pitch (motion dt s)\<bar> \<le> \<bar>pitch s\<bar>" "\<bar>roll (motion dt s)\<bar> \<le> \<bar>roll s\<bar>"
    using abs_damped [OF f] by (simp_all add: motion_angles)
qed

lemma update_angles_bounded:
  assumes "0 \<le> delta"
  shows "\<bar>pitch (craft (update keys delta w))\<bar> \<le> MAX_PITCH"
    and "\<bar>roll (craft (update keys delta w))\<bar> \<le> MAX_ROLL"
proof -
  let ?dt = "min delta 0.05"
  let ?s = "physics_entry keys ?dt (craft w)"
  have dt: "0 \<le> ?dt" using assms by simp
  have "pitch ?s = pitch (controls keys ?dt (craft w))" "roll ?s = roll (controls keys ?dt (craft w))"
    by (simp_all add: physics_entry_def measure_speed_def)
  then have "\<bar>pitch ?s\<bar> \<le> MAX_PITCH" "\<bar>roll ?s\<bar> \<le> MAX_ROLL"
    using controls_angles_bounded [OF dt] by simp_all
  moreover have "\<bar>pitch (motion ?dt ?s)\<bar> \<le> \<bar>pitch ?s\<bar>" "\<bar>roll (motion ?dt ?s)\<bar> \<le> \<bar>roll ?s\<bar>"
    by (rule motion_angles_le [OF dt])+
  ultimately show "\<bar>pitch (craft (update keys delta w))\<bar> \<le> MAX_PITCH"
    and "\<bar>roll (craft (update keys delta w))\<bar> \<le> MAX_ROLL"
    unfolding craft_update by linarith+
qed

lemma run_angles_bounded:
  assumes "\<forall>(keys, delta) \<in> set inputs. 0 \<le> delta"
    and "\<bar>pitch (craft w)\<bar> \<le> MAX_PITCH" and "\<bar>roll (craft w)\<bar> \<le> MAX_ROLL"
  shows "\<bar>pitch (craft (run inputs w))\<bar> \<le> MAX_PITCH \<and> \<bar>roll (craft (run inputs w))\<bar> \<le> MAX_ROLL"
  using assms
proof (induction inputs arbitrary: w)
  case Nil
  then show ?case by simp
next
  case (Cons kd rest)
  obtain keys delta where kd: "kd = (keys, delta)" by (cases kd)
  with Cons.prems(1) have d: "0 \<le> delta" and rest: "\<forall>(keys, delta) \<in> set rest. 0 \<le> delta"
    by simp_all
  show ?case
    unfolding kd run.simps
    by (rule Cons.IH [OF rest update_angles_bounded [OF d]])
qed



lemma roll_idle_update:
  "roll (craft (update no_keys delta w)) =
     max (- MAX_ROLL) (min MAX_ROLL (roll (craft w))) * (ROLL_DAMPING powr (min delta 0.05 * 60)) *
     (if vy (position (craft w)) \<le> groundY
      then GROUND_ANGLE_DAMPING powr (min delta 0.05 * 60) else 1)"
proof -
  have "roll (physics_entry no_keys dt s) =
      max (- MAX_ROLL) (min MAX_ROLL (roll s)) * (ROLL_DAMPING powr (dt * 60))" for dt s
    by (simp add: physics_entry_def measure_speed_def controls_def auto_level_simps
        clamp_angles_simps reset_key_def apply_no_keys)
      (simp add: no_keys_def)
  moreover have "position (physics_entry no_keys dt s) = position s" for dt s
    by (simp add: physics_entry_simps) (simp add: no_keys_def)
  ultimately show ?thesis
    by (simp add: craft_update motion_angles)
qed

lemma sixtieth: "min (1 / 60) (0.05::real) * 60 = 1"
  by simp

lemma roll_idle_sixtieth:
  "roll (craft (update no_keys (1 / 60) w)) =
     max (- MAX_ROLL) (min MAX_ROLL (roll (craft w))) * 0.97 *
     (if vy (position (craft w)) \<le> groundY then 0.9 else 1)"
  unfolding roll_idle_update sixtieth
  by (simp add: ROLL_DAMPING_def GROUND_ANGLE_DAMPING_def)

lemma roll_idle_shrinks:
  "\<bar>roll (craft (update no_keys (1 / 60) w))\<bar> \<le> 0.97 * \<bar>roll (craft w)\<bar>"
proof -
  let ?c = "max (- MAX_ROLL) (min MAX_ROLL (roll (craft w)))"
  let ?g = "if vy (position (craft w)) \<le> groundY then 0.9 else (1::real)"
  have c: "\<bar>?c\<bar> \<le> \<bar>roll (craft w)\<bar>"
    using MAX_ROLL_pos by (intro clamp_abs) simp
  have g: "0 \<le> ?g" "?g \<le> 1" by simp_all
  have "\<bar>?c * 0.97 * ?g\<bar> \<le> \<bar>?c * 0.97\<bar>"
    by (rule abs_damped [OF g])
  also have "\<dots> = 0.97 * \<bar>?c\<bar>" by (simp add: abs_mult)
  also have "\<dots> \<le> 0.97 * \<bar>roll (craft w)\<bar>" using c by simp
  finally show ?thesis unfolding roll_idle_sixtieth .
qed

lemma roll_idle_run:
  "\<bar>roll (craft (run (replicate n (no_keys, 1 / 60)) w))\<bar> \<le> 0.97 ^ n * \<bar>roll (craft w)\<bar>"
proof (induction n arbitrary: w)
  case 0
  show ?case by simp
next
  case (Suc n)
  have "\<bar>roll (craft (run (replicate n (no_keys, 1 / 60)) (update no_keys (1 / 60) w)))\<bar>
        \<le> 0.97 ^ n * \<bar>roll (craft (update no_keys (1 / 60) w))\<bar>"
    by (rule Suc.IH)
  also have "\<dots> \<le> 0.97 ^ n * (0.97 * \<bar>roll (craft w)\<bar>)"
    by (intro mult_left_mono roll_idle_shrinks) simp
  finally show ?case by (simp add: mult.assoc)
qed

lemma decay_one_second: "(0.5::real) * 0.97 ^ 60 < 0.081"
proof -
  have a: "(0.97::real) ^ 4 < 0.8853" by (simp add: power4_eq_xxxx)
  have "(0.97::real) ^ 60 = (0.97 ^ 4) ^ 15" by (simp add: power_mult [symmetric])
  also have "\<dots> < 0.8853 ^ 15" using a by (intro power_strict_mono) simp_all
  also have "\<dots> < 0.162" by (simp add: eval_nat_numeral)
  finally show ?thesis by simp
qed

lemma roll_apply_keys:
  assumes "\<not> keys ''KeyA''" and "\<not> keys ''KeyD''"
  shows "roll (apply_keys keys dt s) = roll s"
  using assms by (simp add: apply_keys_def) (simp add: roll_keys_def)

lemma roll_update:
  assumes "\<not> keys ''KeyA''" and "\<not> keys ''KeyD''"
  shows "roll (craft (update keys delta w)) =
     max (- MAX_ROLL) (min MAX_ROLL (if keys ''Space'' then 0 else roll (craft w))) *
     (ROLL_DAMPING powr (min delta 0.05 * 60)) *
     (if (if keys ''Space'' then 2 else vy (position (craft w))) \<le> groundY
      then GROUND_ANGLE_DAMPING powr (min delta 0.05 * 60) else 1)"
proof -
  have r: "roll (reset_key keys (apply_keys keys dt s)) =
      (if keys ''Space'' then 0 else roll s)" for dt s
    using assms by (simp add: reset_key_def resetAirplane_def roll_apply_keys)
  have "roll (physics_entry keys dt s) =
      max (- MAX_ROLL) (min MAX_ROLL (if keys ''Space'' then 0 else roll s)) *
      (ROLL_DAMPING powr (dt * 60))" for dt s
    using assms
    by (simp add: physics_entry_def measure_speed_def controls_def auto_level_simps
        clamp_angles_simps r)
  moreover have "vy (position (physics_entry keys dt s)) =
      (if keys ''Space'' then 2 else vy (position s))" for dt s
    by (simp add: physics_entry_simps)
  ultimately show ?thesis
    by (simp add: craft_update motion_angles)
qed

lemma roll_update_sixtieth:
  assumes "\<not> keys ''KeyA''" and "\<not> keys ''KeyD''"
  shows "roll (craft (update keys (1 / 60) w)) =
     max (- MAX_ROLL) (min MAX_ROLL (if keys ''Space'' then 0 else roll (craft w))) * 0.97 *
     (if (if keys ''Space'' then 2 else vy (position (craft w))) \<le> groundY then 0.9 else 1)"
  unfolding roll_update [OF assms] sixtieth
  by (simp add: ROLL_DAMPING_def GROUND_ANGLE_DAMPING_def)

lemma roll_update_shrinks:
  assumes "\<not> keys ''KeyA''" and "\<not> keys ''KeyD''"
  shows "\<bar>roll (craft (update keys (1 / 60) w))\<bar> \<le> 0.97 * \<bar>roll (craft w)\<bar>"
proof -
  let ?c = "max (- MAX_ROLL) (min MAX_ROLL (if keys ''Space'' then 0 else roll (craft w)))"
  let ?g = "if (if keys ''Space'' then 2 else vy (position (craft w))) \<le> groundY
            then 0.9 else (1::real)"
  have "\<bar>?c\<bar> \<le> \<bar>if keys ''Space'' then 0 else roll (craft w)\<bar>"
    using MAX_ROLL_pos by (intro clamp_abs) simp
  then have c: "\<bar>?c\<bar> \<le> \<bar>roll (craft w)\<bar>"
    by (simp split: if_splits)
  have g: "0 \<le> ?g" "?g \<le> 1" by simp_all
  have "\<bar>?c * 0.97 * ?g\<bar> \<le> \<bar>?c * 0.97\<bar>"
    by (rule abs_damped [OF g])
  also have "\<dots> = 0.97 * \<bar>?c\<bar>" by (simp add: abs_mult)
  also have "\<dots> \<le> 0.97 * \<bar>roll (craft w)\<bar>" using c by simp
  finally show ?thesis unfolding roll_update_sixtieth [OF assms] .
qed

lemma roll_run_shrinks:
  assumes "\<forall>keys \<in> set ks. \<not> keys ''KeyA'' \<and> \<not> keys ''KeyD''"
  shows "\<bar>roll (craft (run (map (\<lambda>keys. (keys, 1 / 60)) ks) w))\<bar>
         \<le> 0.97 ^ length ks * \<bar>roll (craft w)\<bar>"
  using assms
proof (induction ks arbitrary: w)
  case Nil
  show ?case by simp
next
  case (Cons k ks)
  from Cons.prems have k: "\<not> k ''KeyA''" "\<not> k ''KeyD''"
    and ks: "\<forall>keys \<in> set ks. \<not> keys ''KeyA'' \<and> \<not> keys ''KeyD''"
    by auto
  have "\<bar>roll (craft (run (map (\<lambda>keys. (keys, 1 / 60)) ks) (update k (1 / 60) w)))\<bar>
        \<le> 0.97 ^ length ks * \<bar>roll (craft (update k (1 / 60) w))\<bar>"
    by (rule Cons.IH [OF ks])
  also have "\<dots> \<le> 0.97 ^ length ks * (0.97 * \<bar>roll (craft w)\<bar>)"
    by (intro mult_left_mono roll_update_shrinks k) simp
  finally show ?case by (simp add: mult.assoc)
qed


lemma vlength_planar_le: "vlength (Vector3 a b 0) \<le> \<bar>a\<bar> + \<bar>b\<bar>"
  using sqrt_sum_squares_le_sum_abs [of a b] by (simp add: vlength_def power2_eq_square)

lemma phase_positions [simp]:
  "position (integrate_velocity dt s) = position s"
  "position (speed_cap s) = position s"
  by (simp_all add: integrate_velocity_def speed_cap_def)

lemma motion_position:
  "position (motion dt s) =
     addScaledVector (position (ground_constraint dt (speed_cap (integrate_velocity dt s))))
       (velocity (ground_constraint dt (speed_cap (integrate_velocity dt s)))) dt"
  by (simp add: motion_def integrate_position_def)

lemma fall_step_state:
  fixes s :: state
  assumes dt: "dt = 0.05"
    and f: "falling A Bl Bh Yl Yh s"
    and y: "groundY < Yl" and sp: "A + Bl < 20"
    and A': "A + 0.33 \<le> A'" and Bl': "Bl + 0.4905 \<le> Bl'"
    and Bh': "Bh' \<le> 0.9982 * Bh + 0.4905" "0 \<le> Bh'"
    and Yl': "Yl' \<le> Yl - Bl' * 0.05" and Yh': "Yh - Bh' * 0.05 \<le> Yh'"
  shows "falling A' Bl' Bh' Yl' Yh' (motion dt (physics_entry no_keys dt s))"
proof -
  define a where "a = vx (velocity s)"
  define b where "b = vy (velocity s)"
  define y0 where "y0 = vy (position s)"
  from f have lev: "pitch s = 0" "roll s = 0" "yaw s = 0"
    and thr: "throttle s = 0.3" and air: "\<not> onGround s"
    and vz0: "vz (velocity s) = 0"
    and a: "0 \<le> a" "a \<le> A" and b: "- Bl \<le> b" "b \<le> - Bh" and Bh: "0 \<le> Bh"
    and y0: "Yl \<le> y0" "y0 \<le> Yh"
    by (simp_all add: falling_def a_def b_def y0_def)
  have vel: "velocity s = Vector3 a b 0"
    using vz0 by (cases "velocity s") (simp add: a_def b_def)
  define q where "q = vlength (velocity s)"
  have "q \<le> \<bar>a\<bar> + \<bar>b\<bar>" unfolding q_def vel by (rule vlength_planar_le)
  with a b Bh sp have q: "0 \<le> q" "q < 20"
    by (simp_all add: q_def vlength_nonneg)
  define e where "e = s\<lparr>speed := q\<rparr>"
  have pe: "physics_entry no_keys dt s = e"
    by (simp add: physics_entry_def controls_idle_level [OF lev(1,2)] measure_speed_def e_def q_def)
  define d where "d = (if q > 0.01 then - (q * DRAG_FACTOR) else 0)"
  have d: "- 0.036 \<le> d" "d \<le> 0"
    using q by (simp_all add: d_def DRAG_FACTOR_def)
  have lift: "liftAcc e = 0"
    using q air by (simp add: liftAcc_def isStalled_def e_def STALL_SPEED_def)
  have "acceleration e =
      (let d = (if speed e > 0.01 then - (speed e * DRAG_FACTOR) else 0)
       in Vector3 (throttle e * THRUST_ACCEL + vx (velocity e) * d)
                  (liftAcc e + vy (velocity e) * d - GRAVITY)
                  (vz (velocity e) * d))"
    by (rule acceleration_level) (simp_all add: e_def lev)
  then have acc: "acceleration e = Vector3 (6.6 + a * d) (b * d - 9.81) 0"
    unfolding lift by (simp add: e_def vel thr d_def THRUST_ACCEL_def GRAVITY_def)
  define a1 where "a1 = a + (6.6 + a * d) * dt"
  define b1 where "b1 = b + (b * d - 9.81) * dt"
  have iv: "velocity (integrate_velocity dt e) = Vector3 a1 b1 0"
    by (simp add: integrate_velocity_def acc addScaledVector_def a1_def b1_def)
      (simp add: e_def vel)
  have ad: "a * d \<le> 0" "- 0.036 * a \<le> a * d"
  proof -
    show "a * d \<le> 0" using a d by (simp add: mult_nonneg_nonpos)
    have "a * (- 0.036) \<le> a * d" using d(1) a(1) by (rule mult_left_mono)
    then show "- 0.036 * a \<le> a * d" by simp
  qed
  have bd: "0 \<le> b * d" "b * d \<le> - 0.036 * b"
  proof -
    have b0: "b \<le> 0" using b Bh by simp
    show "0 \<le> b * d" using b0 d by (simp add: mult_nonpos_nonpos)
    have "b * d \<le> b * (- 0.036)" using b0 d(1) by (rule mult_left_mono_neg [rotated]) 
    then show "b * d \<le> - 0.036 * b" by simp
  qed
  have a1: "0 \<le> a1" "a1 \<le> A + 0.33"
    using a ad by (simp_all add: a1_def dt field_simps)
  have b1: "- (Bl + 0.4905) \<le> b1" "b1 \<le> - (0.9982 * Bh + 0.4905)"
    using b bd by (simp_all add: b1_def dt field_simps)
  have "vlength (Vector3 a1 b1 0) \<le> \<bar>a1\<bar> + \<bar>b1\<bar>" by (rule vlength_planar_le)
  also have "\<dots> \<le> MAX_SPEED" using a1 b1 sp Bh by (simp add: MAX_SPEED_def field_simps)
  finally have nocap: "speed_cap (integrate_velocity dt e) = integrate_velocity dt e"
    by (simp add: speed_cap_def iv)
  have pos_e: "vy (position e) = y0" by (simp add: e_def y0_def)
  have airborne: "\<not> vy (position e) \<le> groundY" using y y0 pos_e by simp
  have v': "velocity (motion dt e) = Vector3 a1 b1 0"
    using airborne by (simp add: motion_velocity nocap ground_constraint_velocity iv)
  have p': "vy (position (motion dt e)) = y0 + b1 * dt"
    using airborne
    by (simp add: motion_position nocap ground_constraint_velocity ground_constraint_position
        iv addScaledVector_def pos_e)
  have ang: "pitch (motion dt e) = 0" "roll (motion dt e) = 0" "yaw (motion dt e) = 0"
    "throttle (motion dt e) = 0.3"
    using airborne by (simp_all add: motion_angles) (simp_all add: e_def lev thr)
  have og: "\<not> onGround (motion dt e)"
    using airborne by (simp add: motion_onGround)
  have "Yl' \<le> y0 + b1 * dt" "y0 + b1 * dt \<le> Yh'"
    using y0 b1 Bl' Bh' Yl' Yh' by (simp_all add: dt field_simps)
  moreover have "a1 \<le> A'" "- Bl' \<le> b1" "b1 \<le> - Bh'"
    using a1 b1 A' Bl' Bh' by (simp_all add: field_simps)
  ultimately show ?thesis
    unfolding pe falling_def v' p'
    using ang og a1(1) Bh'(2) by simp
qed

lemma fall_step:
  assumes "falling A Bl Bh Yl Yh (craft w)"
    and "groundY < Yl" and "A + Bl < 20"
    and "A + 0.33 \<le> A'" and "Bl + 0.4905 \<le> Bl'"
    and "Bh' \<le> 0.9982 * Bh + 0.4905" "0 \<le> Bh'"
    and "Yl' \<le> Yl - Bl' * 0.05" and "Yh - Bh' * 0.05 \<le> Yh'"
  shows "falling A' Bl' Bh' Yl' Yh' (craft (update no_keys 0.05 w))"
proof -
  have "craft (update no_keys 0.05 w) = motion 0.05 (physics_entry no_keys 0.05 (craft w))"
    by (simp add: craft_update)
  then show ?thesis
    using fall_step_state [OF refl assms] by simp
qed

lemma falling_first: "falling 0.33 0.4905 0.48 1.975475 1.976 (craft (update no_keys 0.05 initial_world))"
  using first_tick by (simp add: falling_def)

lemma nine_idle_frames:
  "run (replicate 9 (no_keys, 0.05)) w =
     update no_keys 0.05 (update no_keys 0.05 (update no_keys 0.05 (update no_keys 0.05
       (update no_keys 0.05 (update no_keys 0.05 (update no_keys 0.05 (update no_keys 0.05
         (update no_keys 0.05 w))))))))"
  by (simp add: eval_nat_numeral)

lemma ground_floor_aux:
  assumes dt: "0 \<le> dt"
  shows "(vy (position s) \<le> groundY \<longrightarrow>
            vy (velocity (motion dt s)) =
              (if vy (velocity (speed_cap (integrate_velocity dt s))) < 0 then 0
               else vy (velocity (speed_cap (integrate_velocity dt s)))) \<and>
            vy (position (motion dt s)) = groundY + vy (velocity (motion dt s)) * dt \<and>
            groundY \<le> vy (position (motion dt s)) \<and>
            0 \<le> vy (velocity (motion dt s)) \<and>
            (vy (velocity (speed_cap (integrate_velocity dt s))) < 0 \<longrightarrow>
               vy (velocity (motion dt s)) = 0) \<and>
            onGround (motion dt s)) \<and>
         (groundY < vy (position s) \<longrightarrow>
            vy (velocity (motion dt s)) = vy (velocity (speed_cap (integrate_velocity dt s))) \<and>
            vy (position (motion dt s)) =
              vy (position s) + vy (velocity (speed_cap (integrate_velocity dt s))) * dt \<and>
            \<not> onGround (motion dt s))"
proof (intro conjI impI)
  let ?v = "velocity (speed_cap (integrate_velocity dt s))"
  {
    assume g: "vy (position s) \<le> groundY"
    show v: "vy (velocity (motion dt s)) = (if vy ?v < 0 then 0 else vy ?v)"
      using g by (simp add: motion_velocity ground_constraint_velocity)
    show "0 \<le> vy (velocity (motion dt s))" by (simp add: v)
    show p: "vy (position (motion dt s)) = groundY + vy (velocity (motion dt s)) * dt"
      using g
      by (simp add: motion_position motion_velocity ground_constraint_position
          addScaledVector_def)
    have "0 \<le> vy (velocity (motion dt s)) * dt"
      using dt by (simp add: v)
    then show "groundY \<le> vy (position (motion dt s))" by (simp add: p)
    show "onGround (motion dt s)" using g by (simp add: motion_onGround)
    show "vy (velocity (motion dt s)) = 0" if "vy ?v < 0"
      using that by (simp add: v)
  }
  {
    assume a: "groundY < vy (position s)"
    show "vy (velocity (motion dt s)) = vy ?v"
      using a by (simp add: motion_velocity ground_constraint_velocity)
    show "vy (position (motion dt s)) = vy (position s) + vy ?v * dt"
      using a
      by (simp add: motion_position ground_constraint_position ground_constraint_velocity
          addScaledVector_def)
    show "\<not> onGround (motion dt s)" using a by (simp add: motion_onGround)
  }
qed

lemma rest_velocity:
  fixes r :: state
  assumes "pitch r = 0" "roll r = 0" "yaw r = 0" "throttle r = 0.3"
    and "velocity r = Vector3 0 0 0" "speed r = 0" and "\<bar>dt\<bar> \<le> 1"
  shows "velocity (speed_cap (integrate_velocity dt r)) = Vector3 (6.6 * dt) (- (9.81 * dt)) 0"
proof -
  have lift: "liftAcc r = 0"
    by (simp add: liftAcc_def assms)
  have acc: "acceleration r = Vector3 6.6 (- 9.81) 0"
    by (subst acceleration_level)
      (simp_all add: lift assms THRUST_ACCEL_def GRAVITY_def)
  have iv: "velocity (integrate_velocity dt r) = Vector3 (6.6 * dt) (- (9.81 * dt)) 0"
    by (simp add: integrate_velocity_def acc addScaledVector_def assms)
  have "\<not> vlength (Vector3 (6.6 * dt) (- (9.81 * dt)) 0) > MAX_SPEED"
    using reset_tick_speed [OF assms(7)] by (simp add: MAX_SPEED_def)
  then show ?thesis
    by (simp add: speed_cap_def iv)
qed


section \<open>The claims\<close>

text \<open>
  C1 (as the code behaves). The ground test comes before the position integration. In a
  frame with \<open>dt \<ge> 0\<close>: if \<open>position.y \<le> groundClearance\<close> at the ground test, the
  height is snapped to \<open>groundClearance\<close> and a negative pre-clamp \<open>velocity.y\<close> is
  zeroed (post-frame \<open>velocity.y = 0\<close>), so the frame ends with
  \<open>position.y = groundClearance + velocity.y * dt \<ge> groundClearance\<close>,
  \<open>velocity.y \<ge> 0\<close> and \<open>onGround\<close> set. If \<open>position.y > groundClearance\<close> at the
  ground test, \<open>velocity.y\<close> is left alone and the frame ends at
  \<open>position.y + velocity.y * dt\<close> with \<open>onGround\<close> clear; that height can be below
  \<open>groundClearance\<close>, and the next frame's ground test snaps it back.
\<close>

theorem ground_contact:
  assumes "0 \<le> delta"
  shows
    "let dt = min delta 0.05;
         s = physics_entry keys dt (craft w);
         v = velocity (speed_cap (integrate_velocity dt s));
         s' = craft (update keys delta w)
     in position s = (if keys ''Space'' then Vector3 0 2 0 else position (craft w)) \<and>
        (vy (position s) \<le> groundY \<longrightarrow>
           vy (velocity s') = (if vy v < 0 then 0 else vy v) \<and>
           vy (position s') = groundY + vy (velocity s') * dt \<and>
           groundY \<le> vy (position s') \<and> 0 \<le> vy (velocity s') \<and>
           (vy v < 0 \<longrightarrow> vy (velocity s') = 0) \<and> onGround s') \<and>
        (groundY < vy (position s) \<longrightarrow>
           vy (velocity s') = vy v \<and>
           vy (position s') = vy (position s) + vy v * dt \<and> \<not> onGround s')"
proof -
  have dt: "0 \<le> min delta 0.05" using assms by simp
  have "position (physics_entry keys (min delta 0.05) (craft w)) =
      (if keys ''Space'' then Vector3 0 2 0 else position (craft w))"
    by (simp add: physics_entry_simps)
  then show ?thesis
    unfolding Let_def craft_update
    using ground_floor_aux [OF dt, of "physics_entry keys (min delta 0.05) (craft w)"]
    by blast
qed

theorem ground_contact_witness:
  "(0::real) \<le> 0.05 \<and>
   vy (position (physics_entry no_keys (min 0.05 0.05) (craft parked_world))) \<le> groundY \<and>
   vy (velocity (speed_cap (integrate_velocity (min 0.05 0.05)
        (physics_entry no_keys (min 0.05 0.05) (craft parked_world))))) < 0 \<and>
   vy (position (craft (update no_keys 0.05 parked_world))) = groundY \<and>
   vy (velocity (craft (update no_keys 0.05 parked_world))) = 0 \<and>
   onGround (craft (update no_keys 0.05 parked_world)) \<and>
   groundY < vy (position (physics_entry no_keys (min 0.05 0.05) (craft initial_world))) \<and>
   vy (position (craft (update no_keys 0.05 initial_world))) = 1.975475 \<and>
   \<not> onGround (craft (update no_keys 0.05 initial_world))"
proof -
  have pe: "physics_entry no_keys dt (craft parked_world) = craft parked_world" for dt
  proof -
    have "controls no_keys dt (craft parked_world) = craft parked_world"
      by (rule controls_idle_level) (simp_all add: parked_world_def initial_state_def)
    then show ?thesis
      by (simp add: physics_entry_def measure_speed_def)
        (simp add: parked_world_def initial_state_def vlength_def)
  qed
  have v: "velocity (speed_cap (integrate_velocity (min 0.05 0.05) (craft parked_world)))
       = Vector3 (6.6 * min 0.05 0.05) (- (9.81 * min 0.05 0.05)) 0"
    by (rule rest_velocity) (simp_all add: parked_world_def initial_state_def)
  have p: "vy (position (craft parked_world)) \<le> groundY"
    by (simp add: parked_world_def groundY_def)
  have i: "groundY < vy (position (physics_entry no_keys (min 0.05 0.05) (craft initial_world)))"
    by (simp add: physics_entry_simps initial_simps groundY_def)
  have a: "vy (position (craft (update no_keys 0.05 parked_world))) = groundY \<and>
      vy (velocity (craft (update no_keys 0.05 parked_world))) = 0 \<and>
      onGround (craft (update no_keys 0.05 parked_world))"
    using ground_contact [of "0.05" no_keys parked_world] p
    unfolding Let_def pe v
    by simp
  have b: "\<not> onGround (craft (update no_keys 0.05 initial_world))"
    using ground_contact [of "0.05" no_keys initial_world] i
    unfolding Let_def
    by simp
  have c: "vy (position (craft (update no_keys 0.05 initial_world))) = 1.975475"
    using first_tick by simp
  show ?thesis
    unfolding pe v
    using a b c p i by simp
qed

text \<open>
  C1 as stated fails: nine idle frames at \<open>dt = 0.05\<close> from the initial state (the craft
  spawns at height 2 and drops) end with \<open>position.y\<close> below \<open>groundClearance\<close>.
\<close>

theorem ground_floor_counterexample:
  "vy (position (craft (run (replicate 9 (no_keys, 0.05)) initial_world))) < groundY"
proof -
  define w1 where "w1 = update no_keys 0.05 initial_world"
  define w2 where "w2 = update no_keys 0.05 w1"
  define w3 where "w3 = update no_keys 0.05 w2"
  define w4 where "w4 = update no_keys 0.05 w3"
  define w5 where "w5 = update no_keys 0.05 w4"
  define w6 where "w6 = update no_keys 0.05 w5"
  define w7 where "w7 = update no_keys 0.05 w6"
  define w8 where "w8 = update no_keys 0.05 w7"
  define w9 where "w9 = update no_keys 0.05 w8"
  have f1: "falling 0.33 0.4905 0.48 1.975475 1.976 (craft w1)"
    unfolding w1_def by (rule falling_first)
  have f2: "falling 0.66 0.981 0.96 1.926425 1.928 (craft w2)"
    unfolding w2_def by (rule fall_step [OF f1]) (simp_all add: groundY_def)
  have f3: "falling 0.99 1.4715 1.44 1.85285 1.856 (craft w3)"
    unfolding w3_def by (rule fall_step [OF f2]) (simp_all add: groundY_def)
  have f4: "falling 1.32 1.962 1.92 1.75475 1.76 (craft w4)"
    unfolding w4_def by (rule fall_step [OF f3]) (simp_all add: groundY_def)
  have f5: "falling 1.65 2.4525 2.4 1.632125 1.64 (craft w5)"
    unfolding w5_def by (rule fall_step [OF f4]) (simp_all add: groundY_def)
  have f6: "falling 1.98 2.943 2.88 1.484975 1.496 (craft w6)"
    unfolding w6_def by (rule fall_step [OF f5]) (simp_all add: groundY_def)
  have f7: "falling 2.31 3.4335 3.36 1.3133 1.328 (craft w7)"
    unfolding w7_def by (rule fall_step [OF f6]) (simp_all add: groundY_def)
  have f8: "falling 2.64 3.924 3.84 1.1171 1.136 (craft w8)"
    unfolding w8_def by (rule fall_step [OF f7]) (simp_all add: groundY_def)
  have f9: "falling 2.97 4.4145 4.32 0.896375 0.92 (craft w9)"
    unfolding w9_def by (rule fall_step [OF f8]) (simp_all add: groundY_def)
  have "run (replicate 9 (no_keys, 0.05)) initial_world = w9"
    unfolding nine_idle_frames w9_def w8_def w7_def w6_def w5_def w4_def w3_def w2_def w1_def ..
  with f9 show ?thesis by (simp add: falling_def groundY_def)
qed

text \<open>
  C2 (as the code behaves). A frame with the reset key held does not stop after
  \<^verbatim>\<open>resetAirplane()\<close>: the physics section runs on the freshly reset state. With
  \<open>dt = min delta 0.05\<close> and \<open>delta \<ge> 0\<close>, whatever the prior state and the other
  keys, the frame ends with position \<open>(6.6 dt\<^sup>2, 2 - 9.81 dt\<^sup>2, 0)\<close>, velocity
  \<open>(6.6 dt, -9.81 dt, 0)\<close>, pitch = roll = yaw = 0, throttle = 0.3, speed = 0,
  gForce = 1 and onGround = false.
\<close>

theorem reset_frame_runs_physics:
  assumes "keys ''Space''" and "0 \<le> delta"
  shows "craft (update keys delta w) =
     (let dt = min delta 0.05
      in \<lparr>position = Vector3 (6.6 * dt * dt) (2 - 9.81 * dt * dt) 0,
          velocity = Vector3 (6.6 * dt) (- (9.81 * dt)) 0,
          pitch = 0, roll = 0, yaw = 0, throttle = 0.3, speed = 0, gForce = 1,
          onGround = False\<rparr>)"
proof -
  define dt where "dt = min delta 0.05"
  have dt: "\<bar>dt\<bar> \<le> 1" using assms(2) by (simp add: dt_def)
  have "craft (update keys delta w) = motion dt (physics_entry keys dt (craft w))"
    by (simp add: craft_update dt_def)
  also have "physics_entry keys dt (craft w) = resetAirplane (craft w)"
    using assms(1) by (simp add: physics_entry_def controls_reset measure_speed_reset)
  finally have "craft (update keys delta w) = motion dt (resetAirplane (craft w))" .
  then have "craft (update keys delta w) =
     \<lparr>position = Vector3 (6.6 * dt * dt) (2 - 9.81 * dt * dt) 0,
      velocity = Vector3 (6.6 * dt) (- (9.81 * dt)) 0,
      pitch = 0, roll = 0, yaw = 0, throttle = 0.3, speed = 0, gForce = 1,
      onGround = False\<rparr>"
    unfolding motion_after_reset [OF dt] .
  then show ?thesis
    unfolding Let_def dt_def .
qed

theorem reset_frame_runs_physics_witness:
  "space_key ''Space'' \<and> (0::real) \<le> 0.05 \<and>
   craft (update space_key 0.05 initial_world) =
     \<lparr>position = Vector3 0.0165 1.975475 0, velocity = Vector3 0.33 (- 0.4905) 0,
      pitch = 0, roll = 0, yaw = 0, throttle = 0.3, speed = 0, gForce = 1,
      onGround = False\<rparr>"
proof -
  have k: "space_key ''Space''" by (simp add: space_key_def)
  have d: "(0::real) \<le> 0.05" by simp
  show ?thesis
    using k d reset_frame_runs_physics [of space_key "0.05" initial_world]
    by (simp add: Let_def)
qed

text \<open>
  C2 as stated fails: holding the reset key on the very first frame (\<open>delta = 0.05\<close>)
  does not leave the documented defaults; the frame ends airborne and moving.
\<close>

theorem reset_short_circuit_counterexample:
  "\<not> (position (craft (update space_key 0.05 initial_world)) = Vector3 0 2 0 \<and>
      velocity (craft (update space_key 0.05 initial_world)) = Vector3 0 0 0 \<and>
      pitch (craft (update space_key 0.05 initial_world)) = 0 \<and>
      roll (craft (update space_key 0.05 initial_world)) = 0 \<and>
      yaw (craft (update space_key 0.05 initial_world)) = 0 \<and>
      throttle (craft (update space_key 0.05 initial_world)) = 0.3 \<and>
      speed (craft (update space_key 0.05 initial_world)) = 0 \<and>
      onGround (craft (update space_key 0.05 initial_world)))"
  by (simp add: onGround_update space_key_def)

text \<open>
  C3 (as the code behaves). The stall flag of a frame is true iff the speed measured at
  the start of the physics section is below \<open>STALL_SPEED\<close> and \<open>onGround\<close> is false
  there; that \<open>onGround\<close> is the value left by the previous frame unless the reset key
  is held in this frame, in which case it is the \<open>true\<close> just written by the reset.
  The measured speed is the length of the velocity entering the physics section (zero on
  a reset frame) and is what the frame leaves in \<open>speed\<close>.
\<close>

theorem stall_flag_characterisation:
  "(stallWarning (update keys delta w) \<longleftrightarrow>
      speed (craft (update keys delta w)) < STALL_SPEED \<and>
      \<not> (keys ''Space'' \<or> onGround (craft w))) \<and>
   speed (craft (update keys delta w)) =
      (if keys ''Space'' then 0 else vlength (velocity (craft w)))"
  by (simp add: craft_update stallWarning_update motion_speed isStalled_def physics_entry_simps)

theorem stall_flag_characterisation_witness:
  "stallWarning (update no_keys 0.05 (update no_keys 0.05 initial_world)) \<and>
   \<not> stallWarning (update space_key 0.05 (update no_keys 0.05 initial_world))"
proof -
  have "vlength (Vector3 0.33 (- 0.4905) 0) \<le> 1"
    by (rule vlength_le) simp_all
  then have "vlength (velocity (craft (update no_keys 0.05 initial_world))) < STALL_SPEED"
    using first_tick by (simp add: STALL_SPEED_def)
  moreover have "\<not> onGround (craft (update no_keys 0.05 initial_world))"
    using first_tick by simp
  ultimately show ?thesis
    using stall_flag_characterisation
        [of no_keys "0.05" "update no_keys 0.05 initial_world"]
      stall_flag_characterisation
        [of space_key "0.05" "update no_keys 0.05 initial_world"]
    by (simp add: no_keys_def space_key_def)
qed

text \<open>
  C3 as stated fails on a reset frame: after one idle frame the craft is airborne
  (\<open>onGround\<close> false); in the next frame, with the reset key held, the measured speed is
  0 < 20 and the previous frame's \<open>onGround\<close> is false, yet the stall flag is false.
\<close>

theorem stall_previous_onGround_counterexample:
  "\<not> (stallWarning (update space_key 0.05 (update no_keys 0.05 initial_world)) \<longleftrightarrow>
       speed (craft (update space_key 0.05 (update no_keys 0.05 initial_world))) < STALL_SPEED
       \<and> \<not> onGround (craft (update no_keys 0.05 initial_world)))"
  by (simp add: craft_update stallWarning_update motion_speed isStalled_def physics_entry_simps
      motion_onGround initial_simps space_key_def no_keys_def groundY_def STALL_SPEED_def)

text \<open>
  C5. For every sequence of frames starting from the initial state, with any keys held and
  any clock delta \<open>\<ge> 0\<close> in each frame (so any \<open>dt\<close> in \<open>[0, 0.05]\<close>), the state
  after the sequence has \<open>|pitch| \<le> MAX_PITCH\<close> and \<open>|roll| \<le> MAX_ROLL\<close>.
\<close>

theorem angle_clamp:
  assumes "\<forall>(keys, delta) \<in> set inputs. 0 \<le> delta"
  shows "\<bar>pitch (craft (run inputs initial_world))\<bar> \<le> MAX_PITCH \<and>
         \<bar>roll (craft (run inputs initial_world))\<bar> \<le> MAX_ROLL"
proof (rule run_angles_bounded [OF assms])
  show "\<bar>pitch (craft initial_world)\<bar> \<le> MAX_PITCH"
    using MAX_PITCH_pos by (simp add: initial_world_def initial_state_def)
  show "\<bar>roll (craft initial_world)\<bar> \<le> MAX_ROLL"
    using MAX_ROLL_pos by (simp add: initial_world_def initial_state_def)
qed

theorem angle_clamp_witness:
  "(0::real) \<le> 0.05 \<and> (0::real) \<le> 0.01 \<and>
   \<bar>pitch (craft (update space_key 0.01 (update no_keys 0.05 initial_world)))\<bar> \<le> MAX_PITCH \<and>
   \<bar>roll (craft (update space_key 0.01 (update no_keys 0.05 initial_world)))\<bar> \<le> MAX_ROLL"
  using angle_clamp [of "[(no_keys, 0.05), (space_key, 0.01)]"] by simp

text \<open>
  C6 (as the code behaves). With no roll intent held (the pitch intents do not touch the
  roll) and \<open>dt = 1/60\<close>, one frame multiplies the roll by \<open>ROLL_DAMPING = 0.97\<close>, and
  by a further \<open>GROUND_ANGLE_DAMPING = 0.9\<close> when \<open>position.y \<le> groundClearance\<close> at
  the ground test; a frame with the reset intent held sets the roll to 0 instead. So from
  \<open>roll = 0.5\<close> one frame without reset gives \<open>0.5 * 0.97 = 0.485\<close> in the air and
  \<open>0.5 * 0.97 * 0.9 = 0.4365\<close> on the ground, and after one second (60 frames with no
  roll intent) \<open>|roll| \<le> 0.5 * 0.97\<^sup>6\<^sup>0 < 0.081\<close>.
\<close>

theorem auto_level_decay:
  assumes "roll (craft w) = 0.5"
    and "\<not> keys ''KeyA''" and "\<not> keys ''KeyD''"
    and "\<forall>k \<in> set ks. \<not> k ''KeyA'' \<and> \<not> k ''KeyD''" and "length ks = 60"
  shows "roll (craft (update keys (1 / 60) w)) =
           (if keys ''Space'' then 0
            else if vy (position (craft w)) \<le> groundY then 0.5 * 0.97 * 0.9
            else 0.5 * 0.97) \<and>
         \<bar>roll (craft (run (map (\<lambda>k. (k, 1 / 60)) ks) w))\<bar> \<le> 0.5 * 0.97 ^ 60 \<and>
         (0.5::real) * 0.97 ^ 60 < 0.081"
proof (intro conjI)
  have "\<bar>roll (craft w)\<bar> \<le> MAX_ROLL"
    using pi_ge_two by (simp add: assms(1) MAX_ROLL_def)
  then have "max (- MAX_ROLL) (min MAX_ROLL (roll (craft w))) = 0.5"
    by (simp add: clamp_id assms(1))
  then show "roll (craft (update keys (1 / 60) w)) =
           (if keys ''Space'' then 0
            else if vy (position (craft w)) \<le> groundY then 0.5 * 0.97 * 0.9
            else 0.5 * 0.97)"
    by (simp add: roll_update_sixtieth [OF assms(2,3)] clamp_zero)
next
  show "\<bar>roll (craft (run (map (\<lambda>k. (k, 1 / 60)) ks) w))\<bar> \<le> 0.5 * 0.97 ^ 60"
    using roll_run_shrinks [OF assms(4), of w] by (simp add: assms(1,5))
next
  show "(0.5::real) * 0.97 ^ 60 < 0.081" by (rule decay_one_second)
qed

theorem auto_level_decay_witness:
  "roll (craft (initial_world\<lparr>craft := initial_state\<lparr>roll := 0.5\<rparr>\<rparr>)) = 0.5 \<and>
   \<not> no_keys ''KeyA'' \<and> \<not> no_keys ''KeyD'' \<and> length (replicate 60 no_keys) = 60 \<and>
   roll (craft (update no_keys (1 / 60) (initial_world\<lparr>craft := initial_state\<lparr>roll := 0.5\<rparr>\<rparr>)))
     = 0.485 \<and>
   \<bar>roll (craft (run (map (\<lambda>k. (k, 1 / 60)) (replicate 60 no_keys))
       (initial_world\<lparr>craft := initial_state\<lparr>roll := 0.5\<rparr>\<rparr>)))\<bar> < 0.081"
proof -
  have ks: "\<forall>k \<in> set (replicate 60 no_keys). \<not> k ''KeyA'' \<and> \<not> k ''KeyD''"
    by (simp add: no_keys_def)
  show ?thesis
    using auto_level_decay [of "initial_world\<lparr>craft := initial_state\<lparr>roll := 0.5\<rparr>\<rparr>"
        no_keys "replicate 60 no_keys", OF _ _ _ ks]
    by (simp add: initial_state_def groundY_def no_keys_def)
qed

text \<open>
  C6 as stated fails: starting from the initial state with \<open>roll = 0.5\<close>, after 60 idle
  frames at \<open>dt = 1/60\<close> the roll is not within 0.4 of 0.485.
\<close>

theorem auto_level_one_second_counterexample:
  "\<not> \<bar>\<bar>roll (craft (run (replicate 60 (no_keys, 1 / 60))
         (initial_world\<lparr>craft := initial_state\<lparr>roll := 0.5\<rparr>\<rparr>)))\<bar> - 0.485\<bar> \<le> 0.4"
  using roll_idle_run [of 60 "initial_world\<lparr>craft := initial_state\<lparr>roll := 0.5\<rparr>\<rparr>"]
    decay_one_second
  by simp

text \<open>
  C8. The drag block is entered only when \<open>speed > 0.01\<close>: for \<open>speed \<le> 0.01\<close> no
  drag factor is computed (no division takes place), and when one is computed the divisor
  \<open>speed\<close> exceeds 0.01 and the factor is \<open>-(speed * DRAG_FACTOR)\<close>, a non-positive
  multiple of the velocity. With \<open>speed\<close> the length of the velocity, as it is in the
  physics section of every frame, the drag term has magnitude
  \<open>speed\<^sup>2 * DRAG_FACTOR\<close>. Accordingly the acceleration does not depend on the velocity
  when \<open>speed \<le> 0.01\<close>, and otherwise it is the drag-free acceleration plus
  \<open>-(speed * DRAG_FACTOR)\<close> times the velocity.
\<close>

theorem drag_guard:
  "(drag_scale s = None \<longleftrightarrow> speed s \<le> 0.01) \<and>
   (drag_scale s = Some k \<longrightarrow>
      0.01 < speed s \<and> k = - dragAcc s / speed s \<and> k = - (speed s * DRAG_FACTOR) \<and> k < 0 \<and>
      (speed s = vlength (velocity s) \<longrightarrow>
         vlength (multiplyScalar (velocity s) k) = speed s * speed s * DRAG_FACTOR)) \<and>
   speed (physics_entry keys dt s) = vlength (velocity (physics_entry keys dt s)) \<and>
   (speed s \<le> 0.01 \<longrightarrow> acceleration s = acceleration (s\<lparr>velocity := Vector3 0 0 0\<rparr>)) \<and>
   (0.01 < speed s \<longrightarrow>
      acceleration s =
        addScaledVector (acceleration (s\<lparr>velocity := Vector3 0 0 0\<rparr>)) (velocity s)
          (- (speed s * DRAG_FACTOR)))"
proof -
  have "acceleration s =
      (if 0.01 < speed s
       then addScaledVector (acceleration (s\<lparr>velocity := Vector3 0 0 0\<rparr>)) (velocity s)
              (- (speed s * DRAG_FACTOR))
       else acceleration (s\<lparr>velocity := Vector3 0 0 0\<rparr>))"
    by (simp add: acceleration_def drag_scale_def dragAcc_def liftAcc_def isStalled_def
        forward_def upWorld_def orientation_def addScaledVector_def Let_def)
  then show ?thesis
    by (auto simp add: drag_scale_def dragAcc_def vlength_multiplyScalar DRAG_FACTOR_def
        physics_entry_def measure_speed_def)
qed

theorem drag_guard_witness:
  "drag_scale (initial_state\<lparr>velocity := Vector3 5 0 0, speed := 5\<rparr>) = Some (- 0.009) \<and>
   vlength (multiplyScalar (Vector3 5 0 0) (- 0.009)) = 5 * 5 * DRAG_FACTOR \<and>
   drag_scale initial_state = None"
  using drag_guard [of "initial_state\<lparr>velocity := Vector3 5 0 0, speed := 5\<rparr>" "- 0.009"]
    drag_guard [of initial_state]
  by (simp add: drag_scale_def dragAcc_def DRAG_FACTOR_def vlength_axis initial_state_def)

text \<open>
  C9. After every frame the derived \<open>gForce\<close> is at least 1, and on a frame whose stall
  flag is set (lift is zero) it is exactly 1.
\<close>

theorem gForce_at_least_one:
  "gForce (craft (update keys delta w)) \<ge> 1 \<and>
   (stallWarning (update keys delta w) \<longrightarrow> gForce (craft (update keys delta w)) = 1)"
  by (simp add: craft_update stallWarning_update motion_gForce liftAcc_def)

theorem gForce_at_least_one_witness:
  "stallWarning (update no_keys 0.05 (update no_keys 0.05 initial_world)) \<and>
   gForce (craft (update no_keys 0.05 (update no_keys 0.05 initial_world))) = 1"
proof -
  have "vlength (Vector3 0.33 (- 0.4905) 0) \<le> 1"
    by (rule vlength_le) simp_all
  then have "stallWarning (update no_keys 0.05 (update no_keys 0.05 initial_world))"
    using first_tick
    by (simp add: stallWarning_update isStalled_def physics_entry_simps STALL_SPEED_def)
      (simp add: no_keys_def)
  then show ?thesis
    using gForce_at_least_one [of no_keys "0.05" "update no_keys 0.05 initial_world"]
    by simp
qed

text \<open>
  C10. \<^verbatim>\<open>resetAirplane()\<close> writes position, velocity, pitch, roll, yaw, throttle, speed
  and onGround and nothing else: the result is the record of the eight defaults together
  with the \<open>gForce\<close> of the state it was applied to.
\<close>

theorem reset_frame_condition:
  "resetAirplane s = \<lparr>position = Vector3 0 2 0, velocity = Vector3 0 0 0, pitch = 0, roll = 0,
     yaw = 0, throttle = 0.3, speed = 0, gForce = gForce s, onGround = True\<rparr> \<and>
   gForce (resetAirplane s) = gForce s"
  by (simp add: resetAirplane_def)

end
